theory Spec2Isabelle
  imports Main
begin

section \<open>The task types (module \<open>tasks\<close>, imported by calico\_framework.py)\<close>

text \<open>
  calico\_framework.py imports six task classes and the base class \<open>Task\<close> from the module
  \<open>tasks\<close>. The classes are an enumeration; \<open>TASK_CLASSES\<close> lists them in the
  order of the source.
\<close>

datatype task_class =
    TaskRunEtcdProxy
  | TaskInstallNetmodules
  | TaskInstallDockerClusterStore
  | TaskRestartComponents
  | TaskRunCalicoNode
  | TaskRunCalicoLibnetwork

definition TASK_CLASSES :: "task_class list" where
  "TASK_CLASSES = [TaskRunEtcdProxy, TaskInstallNetmodules,
                   TaskInstallDockerClusterStore, TaskRestartComponents,
                   TaskRunCalicoNode, TaskRunCalicoLibnetwork]"

text \<open>
  Modelled from the spec: the class attribute \<open>name\<close> of module \<open>tasks\<close> (a string,
  "unique among task types"). The strings themselves are not known, so a name is either
  the name of one of the six classes, \<open>Name c\<close>, or any other string, \<open>Unknown s\<close>.
\<close>

datatype task_name = Name task_class | Unknown string

definition class_name :: "task_class \<Rightarrow> task_name" where
  "class_name c = Name c"

text \<open>
  Modelled from the spec: the run state of a task instance ("one of not-started, running,
  finished, failed, derived from the most recent status update applied to this
  instance").
\<close>

datatype run_state = NotStarted | Running | Finished | Failed

text \<open>
  Modelled from the spec: an instance of a \<open>Task\<close> class of module \<open>tasks\<close>. It knows
  its class, its run state and what \<open>restart_required()\<close> reports;
  \<open>restart_agent\<close> and \<open>restart_docker\<close> are the keyword arguments that
  \<open>handle_offer\<close> passes to the constructor of the restart task. An instance is an
  ordinary object, so the tests \<open>if not task\<close> of the source are true for \<open>None\<close>
  only.
\<close>

record task =
  task_class_of :: task_class
  state :: run_state
  needs_restart :: bool
  restart_agent :: bool
  restart_docker :: bool

text \<open>
  Modelled from the spec: the constructor \<open>task_class(agent, **kwargs)\<close>; a new instance
  is not started and reports no restart.
\<close>

definition Task_init :: "task_class \<Rightarrow> bool \<Rightarrow> bool \<Rightarrow> task" where
  "Task_init c ra rd =
     \<lparr>task_class_of = c, state = NotStarted, needs_restart = False,
      restart_agent = ra, restart_docker = rd\<rparr>"

text \<open>
  Modelled from the spec: the attribute \<open>name\<close> read on an instance is the name of its
  class.
\<close>

definition name :: "task \<Rightarrow> task_name" where
  "name t = class_name (task_class_of t)"

text \<open>
  Modelled from the spec: the queries \<open>running()\<close>, \<open>finished()\<close>, \<open>failed()\<close>
  ("derived from current run state; mutually exclusive") and \<open>restart_required()\<close>.
\<close>

definition running :: "task \<Rightarrow> bool" where
  "running t = (state t = Running)"

definition finished :: "task \<Rightarrow> bool" where
  "finished t = (state t = Finished)"

definition failed :: "task \<Rightarrow> bool" where
  "failed t = (state t = Failed)"

definition restart_required :: "task \<Rightarrow> bool" where
  "restart_required t = needs_restart t"

text \<open>
  Modelled from the spec: a status update. Its composite task identifier "embeds the
  owning agent id and the task-type name"; it carries the new run state, and the result
  of the run that \<open>restart_required()\<close> reports afterwards.
\<close>

record update =
  task_id :: "string \<times> task_name"
  new_state :: run_state
  restart_detected :: bool

text \<open>
  Modelled from the spec: \<open>Task.name_from_task_id(task_id)\<close> "decodes the task-type
  identifier from a composite task identifier".
\<close>

definition name_from_task_id :: "string \<times> task_name \<Rightarrow> task_name" where
  "name_from_task_id tid = snd tid"

text \<open>Modelled from the spec: \<open>Task.update(update)\<close> "applies a status transition".\<close>

definition update_task :: "task \<Rightarrow> update \<Rightarrow> task" where
  "update_task t u = t\<lparr>state := new_state u, needs_restart := restart_detected u\<rparr>"

text \<open>
  The two tables of module \<open>tasks\<close> that the scheduler reads and that the spec leaves
  open are parameters of the model: the class attribute \<open>persistent\<close> and the class
  method \<open>can_accept_offer(offer)\<close>, a pure predicate on offers of any type \<open>'o\<close>.
\<close>

record 'o tasks_module =
  persistent :: "task_class \<Rightarrow> bool"
  can_accept_offer :: "task_class \<Rightarrow> 'o \<Rightarrow> bool"

section \<open>Class \<open>Agent\<close>\<close>

text \<open>
  The exceptions that the code can raise: a missing dictionary key, an attribute read on
  \<open>None\<close> (or on an object without it), and \<open>next\<close> on an exhausted generator.
\<close>

datatype error = KeyError | AttributeError | StopIteration

text \<open>
  The dictionary \<open>self.tasks\<close>. \<open>__init__\<close> and \<open>new_task\<close> key it by the names of
  the classes; \<open>handle_offer\<close> (lines 170, 171, 178, 179) and \<open>handle_update\<close> (line 292)
  also index it by the class objects themselves, which are different keys. A value is
  \<open>None\<close> or a task instance.
\<close>

datatype tasks_key = KName task_name | KClass task_class

record agent =
  agent_id :: string
  tasks :: "tasks_key \<rightharpoonup> task option"
  restarting :: bool

definition Agent_init :: "string \<Rightarrow> agent" where
  "Agent_init aid =
     \<lparr>agent_id = aid,
      tasks = map_of (map (\<lambda>c. (KName (class_name c), None)) TASK_CLASSES),
      restarting = False\<rparr>"

text \<open>
  A method returns its result, or the exception it raised, together with the agent as the
  method left it. \<open>attempt a r f\<close> continues with \<open>f\<close> on the value of a read \<open>r\<close>
  that changed nothing, and stops with the agent \<open>a\<close> where the read raised.
\<close>

definition attempt :: "agent \<Rightarrow> error + 'a \<Rightarrow> ('a \<Rightarrow> (error + 'b) \<times> agent) \<Rightarrow> (error + 'b) \<times> agent" where
  "attempt a r f = (case r of Inl e \<Rightarrow> (Inl e, a) | Inr x \<Rightarrow> f x)"

definition bind_error :: "error + 'a \<Rightarrow> ('a \<Rightarrow> error + 'b) \<Rightarrow> error + 'b" where
  "bind_error r f = (case r of Inl e \<Rightarrow> Inl e | Inr x \<Rightarrow> f x)"

text \<open>\<open>self.tasks[k]\<close>\<close>

definition lookup_task :: "agent \<Rightarrow> tasks_key \<Rightarrow> error + task option" where
  "lookup_task a k = (case tasks a k of None \<Rightarrow> Inl KeyError | Some v \<Rightarrow> Inr v)"

text \<open>\<open>new_task\<close>: build the instance, store it under its name, return it.\<close>

definition new_task :: "agent \<Rightarrow> task_class \<Rightarrow> bool \<Rightarrow> bool \<Rightarrow> task \<times> agent" where
  "new_task a c ra rd =
     (let t = Task_init c ra rd
      in (t, a\<lparr>tasks := (tasks a)(KName (name t) \<mapsto> Some t)\<rparr>))"

definition task_needs_scheduling :: "'o tasks_module \<Rightarrow> agent \<Rightarrow> task_class \<Rightarrow> error + bool" where
  "task_needs_scheduling m a c =
     bind_error (lookup_task a (KName (class_name c))) (\<lambda>tk.
       case tk of
         None \<Rightarrow> Inr True
       | Some t \<Rightarrow>
           if persistent m (task_class_of t) then Inr (\<not> running t)
           else Inr (failed t))"

definition task_can_be_offered :: "'o tasks_module \<Rightarrow> agent \<Rightarrow> task_class \<Rightarrow> 'o \<Rightarrow> error + bool" where
  "task_can_be_offered m a c offer =
     bind_error (task_needs_scheduling m a c) (\<lambda>needs_scheduling.
       Inr (needs_scheduling \<and> can_accept_offer m c offer))"

definition task_running :: "agent \<Rightarrow> task_class \<Rightarrow> error + bool" where
  "task_running a c =
     bind_error (lookup_task a (KName (class_name c))) (\<lambda>tk.
       case tk of None \<Rightarrow> Inr False | Some t \<Rightarrow> Inr (running t))"

definition task_finished :: "agent \<Rightarrow> task_class \<Rightarrow> error + bool" where
  "task_finished a c =
     bind_error (lookup_task a (KName (class_name c))) (\<lambda>tk.
       case tk of None \<Rightarrow> Inr False | Some t \<Rightarrow> Inr (finished t))"

text \<open>
  \<open>self.tasks[k].restart_required()\<close>: the key may be missing, and the value may be
  \<open>None\<close>, which has no such method.
\<close>

definition restart_required_at :: "agent \<Rightarrow> tasks_key \<Rightarrow> error + bool" where
  "restart_required_at a k =
     bind_error (lookup_task a k) (\<lambda>tk.
       case tk of None \<Rightarrow> Inl AttributeError | Some t \<Rightarrow> Inr (restart_required t))"

text \<open>\<open>return self.new_task(...)\<close>\<close>

definition launch :: "task \<times> agent \<Rightarrow> (error + task option) \<times> agent" where
  "launch r = (Inr (Some (fst r)), snd r)"

text \<open>
  \<open>handle_offer\<close>, rung by rung as in the source (lines 131 to 198). The \<open>or\<close> of lines
  170 and 171 and the \<open>and\<close> of line 174 evaluate their right operand only when needed;
  the keyword arguments of line 178 and 179 are evaluated before \<open>new_task\<close> runs.
\<close>

definition handle_offer :: "'o tasks_module \<Rightarrow> agent \<Rightarrow> 'o \<Rightarrow> (error + task option) \<times> agent" where
  "handle_offer m a offer =
     attempt a (task_can_be_offered m a TaskRunEtcdProxy offer) (\<lambda>offer_etcd.
     if offer_etcd then launch (new_task a TaskRunEtcdProxy False False) else
     attempt a (task_can_be_offered m a TaskInstallNetmodules offer) (\<lambda>offer_netmodules.
     if offer_netmodules then launch (new_task a TaskInstallNetmodules False False) else
     attempt a (task_running a TaskRunEtcdProxy) (\<lambda>etcd_running.
     if etcd_running then (Inr None, a) else
     attempt a (task_can_be_offered m a TaskInstallDockerClusterStore offer) (\<lambda>offer_docker.
     if offer_docker then launch (new_task a TaskInstallDockerClusterStore False False) else
     attempt a (task_finished a TaskInstallNetmodules) (\<lambda>netmodules_finished.
     if \<not> netmodules_finished then (Inr None, a) else
     attempt a (task_finished a TaskInstallDockerClusterStore) (\<lambda>docker_finished.
     if \<not> docker_finished then (Inr None, a) else
     attempt a (restart_required_at a (KClass TaskInstallNetmodules)) (\<lambda>r1.
     attempt a (if r1 then Inr True
                else restart_required_at a (KClass TaskInstallDockerClusterStore))
       (\<lambda>restart_required.
     let a1 = (if \<not> restart_required then a\<lparr>restarting := False\<rparr> else a) in
     attempt a1 (if restart_required
                 then task_can_be_offered m a1 TaskRestartComponents offer
                 else Inr False) (\<lambda>offer_restart.
     if offer_restart then
       attempt a1 (restart_required_at a1 (KClass TaskInstallNetmodules)) (\<lambda>ra.
       attempt a1 (restart_required_at a1 (KClass TaskInstallDockerClusterStore)) (\<lambda>rd.
       launch (new_task a1 TaskRestartComponents ra rd)))
     else if restart_required then (Inr None, a1) else
     attempt a1 (task_can_be_offered m a1 TaskRunCalicoNode offer) (\<lambda>offer_node.
     if offer_node then launch (new_task a1 TaskRunCalicoNode False False) else
     attempt a1 (task_can_be_offered m a1 TaskRunCalicoLibnetwork offer) (\<lambda>offer_libnetwork.
     if offer_libnetwork then launch (new_task a1 TaskRunCalicoLibnetwork False False)
     else (Inr None, a1))))))))))))"

text \<open>
  \<open>task.update(update)\<close> changes the instance itself, so the dictionary shows the change
  in every entry that holds this instance, and in no other. Instances carry no identity
  in the model: the entries that hold an equal instance are taken. (On the agents that
  the code can produce an instance is held by one entry only, the one under its name.)
\<close>

definition update_in_place :: "agent \<Rightarrow> task \<Rightarrow> update \<Rightarrow> agent" where
  "update_in_place a t u =
     a\<lparr>tasks := (\<lambda>k. if tasks a k = Some (Some t) then Some (Some (update_task t u))
                       else tasks a k)\<rparr>"

text \<open>
  \<open>handle_update\<close> (lines 271 to 292). The instance \<open>task\<close> is the one found in the
  dictionary or the one that \<open>new_task\<close> made and stored. Line 291 clears the entry
  under the name of the netmodules task; line 292 assigns under the class object
  \<open>TaskInstallDockerClusterStore\<close>, not under its name.
\<close>

definition handle_update :: "agent \<Rightarrow> update \<Rightarrow> (error + unit) \<times> agent" where
  "handle_update a u =
     (let nm = name_from_task_id (task_id u) in
      attempt a (lookup_task a (KName nm)) (\<lambda>tk.
      attempt a (case tk of
                   Some t \<Rightarrow> Inr (t, a)
                 | None \<Rightarrow>
                     (case find (\<lambda>c. class_name c = nm) TASK_CLASSES of
                        None \<Rightarrow> Inl StopIteration
                      | Some c \<Rightarrow> Inr (new_task a c False False))) (\<lambda>(t, a1).
      let a2 = update_in_place a1 t u
      in if nm = class_name TaskRestartComponents \<and> \<not> running (update_task t u)
         then (Inr (),
               a2\<lparr>tasks := (tasks a2)(KName (class_name TaskInstallNetmodules) \<mapsto> None,
                                        KClass TaskInstallDockerClusterStore \<mapsto> None)\<rparr>)
         else (Inr (), a2))))"

section \<open>Class \<open>CalicoScheduler\<close>\<close>

text \<open>
  The scheduler object: the dictionary \<open>agents\<close> (agent id to agent, in insertion
  order) and its integer attributes by name. \<open>__init__\<close> assigns the attribute
  \<open>max_concurrent_restart\<close>.
\<close>

record scheduler =
  agents :: "(string \<times> agent) list"
  int_attrs :: "string \<rightharpoonup> int"

definition CalicoScheduler_init :: "int \<Rightarrow> scheduler" where
  "CalicoScheduler_init max_concurrent_restarts =
     \<lparr>agents = [], int_attrs = [''max_concurrent_restart'' \<mapsto> max_concurrent_restarts]\<rparr>"

definition getattr :: "scheduler \<Rightarrow> string \<Rightarrow> error + int" where
  "getattr s n = (case int_attrs s n of None \<Rightarrow> Inl AttributeError | Some v \<Rightarrow> Inr v)"

text \<open>
  \<open>sum(1 for a in self.agents if a.restarting)\<close>: iterating a dictionary yields its keys,
  the agent ids; an id is a string and has no attribute \<open>restarting\<close>, so the test raises
  at the first key.
\<close>

fun num_restarting :: "string list \<Rightarrow> error + int" where
  "num_restarting [] = Inr 0"
| "num_restarting (k # ks) = Inl AttributeError"

definition can_restart :: "scheduler \<Rightarrow> agent \<Rightarrow> error + bool" where
  "can_restart s a =
     (if restarting a then Inr True
      else bind_error (num_restarting (map fst (agents s))) (\<lambda>n.
           bind_error (getattr s ''max_num_concurrent_restart'') (\<lambda>cap.
           Inr (n < cap))))"

section \<open>Agents that the code can produce\<close>

text \<open>
  An agent object is created by \<open>Agent(agent_id)\<close> and afterwards changed only by its
  methods \<open>handle_offer\<close> and \<open>handle_update\<close>, whether they return or raise.
\<close>

inductive reachable :: "'o tasks_module \<Rightarrow> agent \<Rightarrow> bool" for m :: "'o tasks_module" where
  created: "reachable m (Agent_init aid)"
| offered: "reachable m a \<Longrightarrow> reachable m (snd (handle_offer m a offer))"
| updated: "reachable m a \<Longrightarrow> reachable m (snd (handle_update a u))"

text \<open>The instance that an agent tracks for a task type, if any.\<close>

definition tracked :: "agent \<Rightarrow> task_class \<Rightarrow> task option" where
  "tracked a c = (case tasks a (KName (class_name c)) of Some (Some t) \<Rightarrow> Some t | _ \<Rightarrow> None)"

text \<open>
  For evaluating the code on concrete inputs: an instance of the two tables in which the
  three daemons are persistent and an offer is the list of the classes that accept it,
  and status updates for an agent \<open>''agent-1''\<close>.
\<close>

definition daemons_persistent :: "task_class list tasks_module" where
  "daemons_persistent =
     \<lparr>persistent = (\<lambda>c. c = TaskRunEtcdProxy \<or> c = TaskRunCalicoNode \<or> c = TaskRunCalicoLibnetwork),
      can_accept_offer = (\<lambda>c offer. c \<in> set offer)\<rparr>"

definition status :: "task_class \<Rightarrow> run_state \<Rightarrow> bool \<Rightarrow> update" where
  "status c st r = \<lparr>task_id = (''agent-1'', class_name c), new_state = st, restart_detected = r\<rparr>"

text \<open>Delivering a sequence of status updates to an agent, one \<open>handle_update\<close> each.\<close>

definition deliver :: "agent \<Rightarrow> update list \<Rightarrow> agent" where
  "deliver a us = foldl (\<lambda>a u. snd (handle_update a u)) a us"

text \<open>
  Three properties used in the proofs. \<open>by_name\<close>: the dictionary has an entry
  under the name of every class, and an instance stored under a name is of that class.
  \<open>own_key\<close>: an instance is held by no entry but the one under its name.
  \<open>keeps a res\<close>: a result \<open>res\<close> of \<open>handle_offer\<close> that returns none left
  the agent \<open>a\<close> as it was, up to a cleared flag.
\<close>

definition by_name :: "agent \<Rightarrow> bool" where
  "by_name a =
     (\<forall>c. \<exists>tk. tasks a (KName (class_name c)) = Some tk \<and>
                 (\<forall>t. tk = Some t \<longrightarrow> task_class_of t = c))"

definition own_key :: "agent \<Rightarrow> bool" where
  "own_key a = (\<forall>k t. tasks a k = Some (Some t) \<longrightarrow> k = KName (name t))"

definition keeps :: "agent \<Rightarrow> (error + task option) \<times> agent \<Rightarrow> bool" where
  "keeps a res = (fst res = Inr None \<longrightarrow> snd res = a \<or> snd res = a\<lparr>restarting := False\<rparr>)"

section \<open>Basic facts\<close>

lemma bind_error_simps [simp]:
  "bind_error (Inl e) f = Inl e"
  "bind_error (Inr x) f = f x"
  by (simp_all add: bind_error_def)

lemma attempt_simps [simp]:
  "attempt a (Inl e) f = (Inl e, a)"
  "attempt a (Inr x) f = f x"
  by (simp_all add: attempt_def)

lemmas agent_defs = task_can_be_offered_def task_needs_scheduling_def task_running_def
  task_finished_def restart_required_at_def lookup_task_def new_task_def launch_def
  Task_init_def name_def class_name_def running_def finished_def failed_def
  restart_required_def update_task_def name_from_task_id_def

lemmas eval_defs = handle_offer_def handle_update_def update_in_place_def agent_defs daemons_persistent_def
  status_def Agent_init_def TASK_CLASSES_def Let_def deliver_def tracked_def

text \<open>The reads of an agent do not look at its flag \<open>restarting\<close>.\<close>

lemma reads_restarting [simp]:
  "lookup_task (a\<lparr>restarting := b\<rparr>) k = lookup_task a k"
  "task_needs_scheduling m (a\<lparr>restarting := b\<rparr>) c = task_needs_scheduling m a c"
  "task_can_be_offered m (a\<lparr>restarting := b\<rparr>) c offer = task_can_be_offered m a c offer"
  "task_running (a\<lparr>restarting := b\<rparr>) c = task_running a c"
  "task_finished (a\<lparr>restarting := b\<rparr>) c = task_finished a c"
  "restart_required_at (a\<lparr>restarting := b\<rparr>) k = restart_required_at a k"
  by (simp_all add: lookup_task_def task_needs_scheduling_def task_can_be_offered_def
      task_running_def task_finished_def restart_required_at_def)




subsection \<open>The dictionary stays keyed by name\<close>

lemma class_name_inj [simp]: "(class_name c = class_name c') = (c = c')"
  by (simp add: class_name_def)

lemma find_class [simp]: "find (\<lambda>c. c = c') TASK_CLASSES = Some c'"
  by (cases c') (simp_all add: TASK_CLASSES_def)

lemma find_unknown [simp]:
  "find (\<lambda>c. class_name c = Unknown s) TASK_CLASSES = None"
  "find (\<lambda>c. False) TASK_CLASSES = None"
  by (simp_all add: TASK_CLASSES_def class_name_def)

lemma by_name_init: "by_name (Agent_init aid)"
  unfolding by_name_def
proof
  fix c
  show "\<exists>tk. tasks (Agent_init aid) (KName (class_name c)) = Some tk \<and>
             (\<forall>t. tk = Some t \<longrightarrow> task_class_of t = c)"
    by (cases c) (simp_all add: Agent_init_def TASK_CLASSES_def class_name_def)
qed

lemma by_name_flag [simp]: "by_name (a\<lparr>restarting := b\<rparr>) = by_name a"
  by (simp add: by_name_def)

lemma by_name_store:
  "by_name a \<Longrightarrow> task_class_of t = c \<Longrightarrow>
   by_name (a\<lparr>tasks := (tasks a)(KName (class_name c) \<mapsto> Some t)\<rparr>)"
  by (simp add: by_name_def class_name_def)

lemma by_name_launch: "by_name a \<Longrightarrow> by_name (snd (launch (new_task a c ra rd)))"
  by (simp add: launch_def new_task_def Let_def name_def by_name_store Task_init_def)

lemma by_name_attempt:
  "by_name a \<Longrightarrow> (\<And>x. by_name (snd (f x))) \<Longrightarrow> by_name (snd (attempt a r f))"
  by (cases r) simp_all

lemma by_name_if:
  "(c \<Longrightarrow> by_name (snd x)) \<Longrightarrow> (\<not> c \<Longrightarrow> by_name (snd y)) \<Longrightarrow>
   by_name (snd (if c then x else y))"
  by simp

lemma by_name_offer: "by_name a \<Longrightarrow> by_name (snd (handle_offer m a offer))"
  unfolding handle_offer_def Let_def
  by (intro by_name_attempt by_name_if by_name_launch) simp_all

lemma by_name_in_place:
  "by_name a \<Longrightarrow> by_name (update_in_place a t u)"
  unfolding by_name_def update_in_place_def
proof
  fix c
  assume inv: "\<forall>c. \<exists>tk. tasks a (KName (class_name c)) = Some tk \<and>
                      (\<forall>t. tk = Some t \<longrightarrow> task_class_of t = c)"
  then obtain tk where tk: "tasks a (KName (class_name c)) = Some tk"
    and cl: "\<forall>t. tk = Some t \<longrightarrow> task_class_of t = c"
    by blast
  show "\<exists>tk. tasks (a\<lparr>tasks := \<lambda>k. if tasks a k = Some (Some t)
                                      then Some (Some (update_task t u)) else tasks a k\<rparr>)
               (KName (class_name c)) = Some tk \<and>
             (\<forall>t. tk = Some t \<longrightarrow> task_class_of t = c)"
    using tk cl by (auto simp: update_task_def)
qed

lemma by_name_clear:
  "by_name a \<Longrightarrow>
   by_name (a\<lparr>tasks := (tasks a)(KName (class_name c) \<mapsto> None, KClass c' \<mapsto> None)\<rparr>)"
  by (simp add: by_name_def class_name_def)

lemma by_name_new_task: "by_name a \<Longrightarrow> by_name (snd (new_task a c ra rd))"
  by (simp add: new_task_def Let_def name_def by_name_store Task_init_def)

lemma by_name_update: "by_name a \<Longrightarrow> by_name (snd (handle_update a u))"
proof -
  assume inv: "by_name a"
  let ?nm = "name_from_task_id (task_id u)"
  show ?thesis
  proof (cases "tasks a (KName ?nm)")
    case None
    with inv show ?thesis
      unfolding handle_update_def Let_def by (simp add: lookup_task_def)
  next
    case (Some tk)
    show ?thesis
    proof (cases tk)
      case (Some t)
      with \<open>tasks a (KName ?nm) = Some tk\<close> inv show ?thesis
        unfolding handle_update_def Let_def
        by (simp add: lookup_task_def by_name_in_place by_name_clear)
    next
      case None
      note tk_none = this
      show ?thesis
      proof (cases "find (\<lambda>c. class_name c = ?nm) TASK_CLASSES")
        case None
        with tk_none \<open>tasks a (KName ?nm) = Some tk\<close> inv show ?thesis
          unfolding handle_update_def Let_def by (simp add: lookup_task_def)
      next
        case (Some c)
        have "by_name (update_in_place (snd (new_task a c False False))
                         (fst (new_task a c False False)) u)"
          using inv by (intro by_name_in_place by_name_new_task)
        with Some tk_none \<open>tasks a (KName ?nm) = Some tk\<close> show ?thesis
          unfolding handle_update_def Let_def
          by (simp add: lookup_task_def by_name_clear split_beta)
      qed
    qed
  qed
qed

lemma reachable_by_name: "reachable m a \<Longrightarrow> by_name a"
  by (induction rule: reachable.induct) (simp_all add: by_name_init by_name_offer by_name_update)

subsection \<open>An instance is held under its own name only\<close>

lemma own_keyI:
  "(\<And>k t. tasks a k = Some (Some t) \<Longrightarrow> k = KName (name t)) \<Longrightarrow> own_key a"
  by (simp add: own_key_def)

lemma own_keyD: "own_key a \<Longrightarrow> tasks a k = Some (Some t) \<Longrightarrow> k = KName (name t)"
  by (simp add: own_key_def)

lemma Agent_init_none: "tasks (Agent_init aid) k \<noteq> Some (Some t)"
  by (simp add: Agent_init_def TASK_CLASSES_def)

lemma own_key_init: "own_key (Agent_init aid)"
  by (rule own_keyI) (simp add: Agent_init_none)

lemma own_key_flag [simp]: "own_key (a\<lparr>restarting := b\<rparr>) = own_key a"
  by (simp add: own_key_def)

lemma own_key_new_task:
  assumes "own_key a"
  shows "own_key (snd (new_task a c ra rd))"
proof (rule own_keyI)
  fix k t
  assume held: "tasks (snd (new_task a c ra rd)) k = Some (Some t)"
  show "k = KName (name t)"
  proof (cases "k = KName (name (Task_init c ra rd))")
    case True
    with held show ?thesis by (simp add: new_task_def Let_def)
  next
    case False
    with held have "tasks a k = Some (Some t)" by (simp add: new_task_def Let_def)
    with assms show ?thesis by (rule own_keyD)
  qed
qed

lemma own_key_launch: "own_key a \<Longrightarrow> own_key (snd (launch (new_task a c ra rd)))"
  by (simp add: launch_def own_key_new_task)

lemma own_key_attempt:
  "own_key a \<Longrightarrow> (\<And>x. own_key (snd (f x))) \<Longrightarrow> own_key (snd (attempt a r f))"
  by (cases r) simp_all

lemma own_key_if:
  "(c \<Longrightarrow> own_key (snd x)) \<Longrightarrow> (\<not> c \<Longrightarrow> own_key (snd y)) \<Longrightarrow>
   own_key (snd (if c then x else y))"
  by simp

lemma own_key_offer: "own_key a \<Longrightarrow> own_key (snd (handle_offer m a offer))"
  unfolding handle_offer_def Let_def
  by (intro own_key_attempt own_key_if own_key_launch) simp_all

lemma own_key_in_place:
  assumes "own_key a"
  shows "own_key (update_in_place a t0 u)"
proof (rule own_keyI)
  fix k t
  assume held: "tasks (update_in_place a t0 u) k = Some (Some t)"
  show "k = KName (name t)"
  proof (cases "tasks a k = Some (Some t0)")
    case True
    with held have "t = update_task t0 u" by (simp add: update_in_place_def)
    then have "name t = name t0" by (simp add: name_def update_task_def)
    moreover from assms True have "k = KName (name t0)" by (rule own_keyD)
    ultimately show ?thesis by simp
  next
    case False
    with held have "tasks a k = Some (Some t)" by (simp add: update_in_place_def)
    with assms show ?thesis by (rule own_keyD)
  qed
qed

lemma own_key_clear:
  assumes "own_key a"
  shows "own_key (a\<lparr>tasks := (tasks a)(k1 \<mapsto> None, k2 \<mapsto> None)\<rparr>)"
proof (rule own_keyI)
  fix k t
  assume held: "tasks (a\<lparr>tasks := (tasks a)(k1 \<mapsto> None, k2 \<mapsto> None)\<rparr>) k = Some (Some t)"
  then have "k \<noteq> k1" and "k \<noteq> k2" by (auto split: if_splits)
  with held have "tasks a k = Some (Some t)" by simp
  with assms show "k = KName (name t)" by (rule own_keyD)
qed

lemma own_key_update: "own_key a \<Longrightarrow> own_key (snd (handle_update a u))"
proof -
  assume inv: "own_key a"
  let ?nm = "name_from_task_id (task_id u)"
  show ?thesis
  proof (cases "tasks a (KName ?nm)")
    case None
    with inv show ?thesis
      unfolding handle_update_def Let_def by (simp add: lookup_task_def)
  next
    case (Some tk)
    show ?thesis
    proof (cases tk)
      case (Some t)
      with \<open>tasks a (KName ?nm) = Some tk\<close> inv show ?thesis
        unfolding handle_update_def Let_def
        by (simp add: lookup_task_def own_key_in_place own_key_clear)
    next
      case None
      note tk_none = this
      show ?thesis
      proof (cases "find (\<lambda>c. class_name c = ?nm) TASK_CLASSES")
        case None
        with tk_none \<open>tasks a (KName ?nm) = Some tk\<close> inv show ?thesis
          unfolding handle_update_def Let_def by (simp add: lookup_task_def)
      next
        case (Some c)
        have "own_key (update_in_place (snd (new_task a c False False))
                         (fst (new_task a c False False)) u)"
          using inv by (intro own_key_in_place own_key_new_task)
        with Some tk_none \<open>tasks a (KName ?nm) = Some tk\<close> show ?thesis
          unfolding handle_update_def Let_def
          by (simp add: lookup_task_def own_key_clear split_beta)
      qed
    qed
  qed
qed

lemma reachable_own_key: "reachable m a \<Longrightarrow> own_key a"
  by (induction rule: reachable.induct) (simp_all add: own_key_init own_key_offer own_key_update)

text \<open>
  So on an agent that the code can produce, \<open>task.update(update)\<close> changes the entry under
  the name of the instance and nothing else.
\<close>

lemma reachable_update_in_place:
  assumes "reachable m a" and "tasks a (KName (name t)) = Some (Some t)"
  shows "update_in_place a t u = a\<lparr>tasks := (tasks a)(KName (name t) \<mapsto> Some (update_task t u))\<rparr>"
proof -
  from assms(1) have own: "own_key a" by (rule reachable_own_key)
  have "(if tasks a k = Some (Some t) then Some (Some (update_task t u)) else tasks a k)
          = ((tasks a)(KName (name t) \<mapsto> Some (update_task t u))) k" for k
  proof (cases "tasks a k = Some (Some t)")
    case True
    with own have "k = KName (name t)" by (rule own_keyD)
    with True show ?thesis by simp
  next
    case False
    with assms(2) have "k \<noteq> KName (name t)" by auto
    with False show ?thesis by simp
  qed
  then have "(\<lambda>k. if tasks a k = Some (Some t) then Some (Some (update_task t u)) else tasks a k)
               = (tasks a)(KName (name t) \<mapsto> Some (update_task t u))"
    by (rule ext)
  then show ?thesis by (simp add: update_in_place_def)
qed

subsection \<open>An offer that is declined changes at most the flag\<close>

lemma keeps_attempt: "(\<And>x. keeps a (f x)) \<Longrightarrow> keeps a (attempt a1 r f)"
  by (cases r) (simp_all add: keeps_def)

lemma keeps_if:
  "(c \<Longrightarrow> keeps a x) \<Longrightarrow> (\<not> c \<Longrightarrow> keeps a y) \<Longrightarrow> keeps a (if c then x else y)"
  by simp

lemma keeps_launch: "keeps a (launch x)"
  by (simp add: keeps_def launch_def)

lemma keeps_none: "a1 = a \<or> a1 = a\<lparr>restarting := False\<rparr> \<Longrightarrow> keeps a (Inr None, a1)"
  by (simp add: keeps_def)

lemma handle_offer_keeps: "keeps a (handle_offer m a offer)"
  unfolding handle_offer_def Let_def
  by (intro keeps_attempt keeps_if keeps_launch keeps_none) simp_all

lemma handle_offer_none_agent:
  "fst (handle_offer m a offer) = Inr None \<Longrightarrow>
   snd (handle_offer m a offer) = a \<or> snd (handle_offer m a offer) = a\<lparr>restarting := False\<rparr>"
  using handle_offer_keeps [of a m offer] by (simp add: keeps_def)

lemma handle_offer_flag_result:
  "fst (handle_offer m (a\<lparr>restarting := b\<rparr>) offer) = fst (handle_offer m a offer)"
  unfolding handle_offer_def Let_def launch_def new_task_def
  by (auto simp: attempt_def split: sum.splits if_splits)

section \<open>The claims\<close>

text \<open>
  C1 (stall invariant): while the etcd proxy is not observed running, \<open>handle_offer\<close>
  should return none, also for an offer that satisfies the cluster-store task. The code
  tests \<open>task_running\<close> where its comment says it waits for the proxy to come online
  (line 142): with the etcd proxy tracked but not started and an offer that only the
  cluster-store task accepts, it launches the cluster-store task.
\<close>

theorem stall_not_enforced:
  "(let a = deliver (Agent_init ''agent-1'') [status TaskRunEtcdProxy NotStarted False] in
      task_running a TaskRunEtcdProxy = Inr False \<and>
      fst (handle_offer daemons_persistent a [TaskInstallDockerClusterStore])
        = Inr (Some (Task_init TaskInstallDockerClusterStore False False)))"
  by (simp add: eval_defs)

text \<open>
  C2 (scenario B): with the etcd proxy running, both install tasks finished and no restart
  required, an offer that satisfies every task should launch the Calico node. The code
  returns none at line 145, because the etcd proxy is running.
\<close>

theorem scenario_B_returns_none:
  "(let a = deliver (Agent_init ''agent-1'')
              [status TaskRunEtcdProxy Running False,
               status TaskInstallNetmodules Finished False,
               status TaskInstallDockerClusterStore Finished False] in
      task_running a TaskRunEtcdProxy = Inr True \<and>
      task_finished a TaskInstallNetmodules = Inr True \<and>
      task_finished a TaskInstallDockerClusterStore = Inr True \<and>
      map_option restart_required (tracked a TaskInstallNetmodules) = Some False \<and>
      map_option restart_required (tracked a TaskInstallDockerClusterStore) = Some False \<and>
      handle_offer daemons_persistent a TASK_CLASSES = (Inr None, a))"
  by (simp add: eval_defs)

text \<open>
  C3 (restart-completion reset): an update that leaves the restart task not running
  should clear the tracked netmodules and cluster-store instances. Line 291 clears the
  first; line 292 assigns under the class object, so the cluster-store instance stays
  tracked under its name and, being finished, does not need scheduling.
\<close>

theorem restart_reset_keeps_cluster_store:
  "(let a = deliver (Agent_init ''agent-1'')
              [status TaskInstallNetmodules Finished True,
               status TaskInstallDockerClusterStore Finished False,
               status TaskRestartComponents Running False];
        a' = snd (handle_update a (status TaskRestartComponents Finished False)) in
      map_option running (tracked a' TaskRestartComponents) = Some False \<and>
      tracked a' TaskInstallNetmodules = None \<and>
      tracked a' TaskInstallDockerClusterStore =
        Some (update_task (Task_init TaskInstallDockerClusterStore False False)
               (status TaskInstallDockerClusterStore Finished False)) \<and>
      tasks a' (KClass TaskInstallDockerClusterStore) = Some None \<and>
      task_needs_scheduling daemons_persistent a' TaskInstallDockerClusterStore = Inr False)"
  by (simp add: eval_defs)

text \<open>
  C4 (scenario C): with the netmodules task reporting that a restart is required, no
  restart task tracked and an offer that satisfies the restart task, \<open>handle_offer\<close>
  should return the restart task and set the flag \<open>restarting\<close>. With the etcd proxy
  running and both install tasks finished, the code returns none at line 145 and leaves
  the flag false. Where the etcd proxy is not running and the code gets past line 142, it
  reads \<open>self.tasks[TaskInstallNetmodules]\<close> at line 170, a key that the dictionary
  does not have, and raises KeyError.
\<close>

theorem scenario_C_no_restart:
  "(let a = deliver (Agent_init ''agent-1'')
              [status TaskRunEtcdProxy Running False,
               status TaskInstallNetmodules Finished True,
               status TaskInstallDockerClusterStore Finished False];
        b = deliver (Agent_init ''agent-1'')
              [status TaskInstallNetmodules Finished True,
               status TaskInstallDockerClusterStore Finished False] in
      map_option restart_required (tracked a TaskInstallNetmodules) = Some True \<and>
      tracked a TaskRestartComponents = None \<and>
      can_accept_offer daemons_persistent TaskRestartComponents TASK_CLASSES \<and>
      handle_offer daemons_persistent a TASK_CLASSES = (Inr None, a) \<and>
      \<not> restarting a \<and>
      map_option restart_required (tracked b TaskInstallNetmodules) = Some True \<and>
      tracked b TaskRestartComponents = None \<and>
      handle_offer daemons_persistent b [TaskRestartComponents] = (Inl KeyError, b) \<and>
      \<not> restarting b)"
  by (simp add: eval_defs)

text \<open>
  C5: \<open>can_restart\<close> should allow an agent that is not restarting exactly when fewer
  agents than the cap are restarting. For such an agent the code reads the attribute
  \<open>max_num_concurrent_restart\<close>, which \<open>__init__\<close> never assigns (it assigns
  \<open>max_concurrent_restart\<close>): with no agent restarting and a cap of 1 it raises
  AttributeError where the claim gives true. With an agent in the dictionary it raises
  already at line 310, which iterates the agent ids.
\<close>

theorem can_restart_raises:
  "can_restart (CalicoScheduler_init 1) (Agent_init ''agent-1'') = Inl AttributeError \<and>
   can_restart ((CalicoScheduler_init 1)\<lparr>agents := [(''agent-1'', Agent_init ''agent-1'')]\<rparr>)
     (Agent_init ''agent-2'') = Inl AttributeError"
  by (simp add: can_restart_def CalicoScheduler_init_def getattr_def Agent_init_def)

text \<open>
  C6 (ordering invariant): the first task that a fresh agent launches should be the etcd
  proxy or the netmodules install. On a fresh agent and an offer that only the
  cluster-store task accepts, the code launches the cluster-store task.
\<close>

theorem fresh_agent_launches_cluster_store:
  "fst (handle_offer daemons_persistent (Agent_init ''agent-1'') [TaskInstallDockerClusterStore])
     = Inr (Some (Task_init TaskInstallDockerClusterStore False False))"
  by (simp add: eval_defs)

text \<open>
  C7: \<open>task_needs_scheduling\<close> is true when no instance is tracked for the type;
  otherwise, for a persistent type, exactly when the tracked instance is not running, and
  for a type that is not persistent, exactly when the tracked instance has failed. The
  code reads \<open>persistent\<close> from the tracked instance; on every agent that the code can
  produce, that instance is of the type asked for.
\<close>

theorem task_needs_scheduling_spec:
  assumes "reachable m a"
  shows "task_needs_scheduling m a c =
           Inr (case tracked a c of
                  None \<Rightarrow> True
                | Some t \<Rightarrow> if persistent m c then \<not> running t else failed t)"
proof -
  from assms have "by_name a" by (rule reachable_by_name)
  then obtain tk where tk: "tasks a (KName (class_name c)) = Some tk"
    and cl: "\<forall>t. tk = Some t \<longrightarrow> task_class_of t = c"
    unfolding by_name_def by blast
  show ?thesis
  proof (cases tk)
    case None
    with tk show ?thesis by (simp add: task_needs_scheduling_def lookup_task_def tracked_def)
  next
    case (Some t)
    with tk cl show ?thesis by (simp add: task_needs_scheduling_def lookup_task_def tracked_def)
  qed
qed

theorem task_needs_scheduling_spec_witness:
  "reachable daemons_persistent
     (snd (handle_update (Agent_init ''agent-1'') (status TaskRunEtcdProxy Running False))) \<and>
   task_needs_scheduling daemons_persistent
     (snd (handle_update (Agent_init ''agent-1'') (status TaskRunEtcdProxy Running False)))
     TaskRunEtcdProxy = Inr False \<and>
   task_needs_scheduling daemons_persistent
     (snd (handle_update (Agent_init ''agent-1'') (status TaskRunEtcdProxy Running False)))
     TaskInstallNetmodules = Inr True"
proof -
  let ?a = "snd (handle_update (Agent_init ''agent-1'') (status TaskRunEtcdProxy Running False))"
  have r: "reachable daemons_persistent ?a"
    by (rule reachable.updated [OF reachable.created])
  show ?thesis
    using r task_needs_scheduling_spec [OF r, of TaskRunEtcdProxy]
      task_needs_scheduling_spec [OF r, of TaskInstallNetmodules]
    by (simp add: eval_defs)
qed

text \<open>
  C8 (scenario E): a status update whose identifier decodes to the name of a task type for
  which the agent tracks no instance does not fail and is not dropped. \<open>handle_update\<close>
  returns; \<open>new_task\<close> creates a fresh instance and stores it in the dictionary before
  the update is applied, so that handling the update is the same as handling it on the
  agent in which the fresh instance is already tracked; and afterwards the agent tracks
  for that type the fresh instance with the update applied.
\<close>

theorem handle_update_untracked:
  assumes "name_from_task_id (task_id u) = class_name c"
    and "tasks a (KName (class_name c)) = Some None"
  shows "fst (handle_update a u) = Inr () \<and>
         tracked (snd (handle_update a u)) c = Some (update_task (Task_init c False False) u) \<and>
         tracked (snd (new_task a c False False)) c = Some (Task_init c False False) \<and>
         handle_update a u = handle_update (snd (new_task a c False False)) u"
  using assms unfolding handle_update_def Let_def
  by (simp add: lookup_task_def new_task_def name_def tracked_def Task_init_def Let_def
        update_in_place_def)

theorem handle_update_untracked_witness:
  "name_from_task_id (task_id (status TaskInstallDockerClusterStore Finished False))
     = class_name TaskInstallDockerClusterStore \<and>
   tasks (Agent_init ''agent-1'') (KName (class_name TaskInstallDockerClusterStore)) = Some None \<and>
   fst (handle_update (Agent_init ''agent-1'') (status TaskInstallDockerClusterStore Finished False))
     = Inr () \<and>
   tracked (snd (handle_update (Agent_init ''agent-1'')
                   (status TaskInstallDockerClusterStore Finished False)))
      TaskInstallDockerClusterStore
     = Some (update_task (Task_init TaskInstallDockerClusterStore False False)
              (status TaskInstallDockerClusterStore Finished False)) \<and>
   finished (update_task (Task_init TaskInstallDockerClusterStore False False)
              (status TaskInstallDockerClusterStore Finished False)) \<and>
   handle_update (Agent_init ''agent-1'') (status TaskInstallDockerClusterStore Finished False)
     = handle_update (snd (new_task (Agent_init ''agent-1'') TaskInstallDockerClusterStore
                             False False))
         (status TaskInstallDockerClusterStore Finished False)"
proof -
  have n: "name_from_task_id (task_id (status TaskInstallDockerClusterStore Finished False))
             = class_name TaskInstallDockerClusterStore"
    by (simp add: status_def name_from_task_id_def)
  have t: "tasks (Agent_init ''agent-1'') (KName (class_name TaskInstallDockerClusterStore))
             = Some None"
    by (simp add: Agent_init_def TASK_CLASSES_def class_name_def)
  have f: "finished (update_task (Task_init TaskInstallDockerClusterStore False False)
              (status TaskInstallDockerClusterStore Finished False))"
    by (simp add: update_task_def Task_init_def finished_def status_def)
  show ?thesis
    using n t f handle_update_untracked [OF n t] by blast
qed

text \<open>
  C9: when \<open>handle_offer\<close> returns none, it created no instance and left the dictionary
  \<open>tasks\<close> as it was: the agent is unchanged, except that its flag \<open>restarting\<close> may
  have been cleared; and the same offer made again returns none again and changes nothing.
\<close>

theorem handle_offer_none_frame:
  assumes "fst (handle_offer m a offer) = Inr None"
  shows "(snd (handle_offer m a offer) = a \<or>
          snd (handle_offer m a offer) = a\<lparr>restarting := False\<rparr>) \<and>
         tasks (snd (handle_offer m a offer)) = tasks a \<and>
         handle_offer m (snd (handle_offer m a offer)) offer
           = (Inr None, snd (handle_offer m a offer))"
proof -
  let ?a' = "snd (handle_offer m a offer)"
  have frame: "?a' = a \<or> ?a' = a\<lparr>restarting := False\<rparr>"
    using assms by (rule handle_offer_none_agent)
  then have same_tasks: "tasks ?a' = tasks a" by auto
  have again: "fst (handle_offer m ?a' offer) = Inr None"
    using frame assms by (auto simp: handle_offer_flag_result)
  then have "snd (handle_offer m ?a' offer) = ?a' \<or>
             snd (handle_offer m ?a' offer) = ?a'\<lparr>restarting := False\<rparr>"
    by (rule handle_offer_none_agent)
  moreover have "?a' = a \<Longrightarrow> snd (handle_offer m ?a' offer) = ?a'"
    by simp
  moreover have "?a' = a\<lparr>restarting := False\<rparr> \<Longrightarrow> ?a'\<lparr>restarting := False\<rparr> = ?a'"
    by simp
  ultimately have "snd (handle_offer m ?a' offer) = ?a'"
    using frame by metis
  with again have "handle_offer m ?a' offer = (Inr None, ?a')"
    by (simp add: prod_eq_iff)
  with frame same_tasks show ?thesis by simp
qed

theorem handle_offer_none_frame_witness:
  "(let a = deliver (Agent_init ''agent-1'')
              [status TaskRunEtcdProxy Running False,
               status TaskInstallNetmodules Finished False] in
      fst (handle_offer daemons_persistent a TASK_CLASSES) = Inr None \<and>
      tasks (snd (handle_offer daemons_persistent a TASK_CLASSES)) = tasks a \<and>
      handle_offer daemons_persistent (snd (handle_offer daemons_persistent a TASK_CLASSES))
          TASK_CLASSES
        = (Inr None, snd (handle_offer daemons_persistent a TASK_CLASSES)))"
proof -
  let ?a = "deliver (Agent_init ''agent-1'')
              [status TaskRunEtcdProxy Running False,
               status TaskInstallNetmodules Finished False]"
  have none: "fst (handle_offer daemons_persistent ?a TASK_CLASSES) = Inr None"
    by (simp add: eval_defs)
  show ?thesis
    using none handle_offer_none_frame [OF none] by (simp add: Let_def)
qed




end
